theory Spec2Isabelle
  imports Complex_Main "HOL-Library.Log_Nat"
begin

section \<open>Strings and numbers of the source language\<close>

text \<open>
  The program is TypeScript. A string of the source is a sequence of UTF-16 code units;
  \<open>length\<close> counts code units, as \<open>.length\<close> does. A code unit is modelled as a natural
  number. A \<open>number\<close> of the source is a \<open>real\<close> where the code computes with fractions
  (ease factor, confidence, mastery) and an \<open>int\<close> where the code only ever stores whole
  values (day counts, counters, millisecond timestamps). \<open>Math.round\<close> is \<open>round\<close>
  (\<open>\<lfloor>x + 1/2\<rfloor>\<close>, halves go up), \<open>Math.floor\<close> of a quotient of whole numbers is \<open>div\<close>.
  The scheduling step and the confidence are computed in exact arithmetic; the mastery
  score is computed in double precision, operation by operation (see there).
\<close>

type_synonym jsstring = "nat list"

definition js :: "string \<Rightarrow> jsstring" where
  "js s = map of_char s"

text \<open>Decimal rendering of a whole number inside a template literal.\<close>

fun decimal :: "nat \<Rightarrow> jsstring" where
  "decimal n = (if n < 10 then [48 + n] else decimal (n div 10) @ [48 + n mod 10])"

definition numToString :: "int \<Rightarrow> jsstring" where
  "numToString i = (if i < 0 then 45 # decimal (nat (- i)) else decimal (nat i))"

section \<open>Scheduler: the SM-2 fields of a word (types/index.ts)\<close>

record SM2Values =
  easeFactor :: real
  interval :: int
  repetitions :: int
  nextReview :: int
  lastReview :: "int option"
  timesCorrect :: int
  timesIncorrect :: int

record Word = SM2Values +
  id_w :: jsstring
  listId :: jsstring
  term_w :: jsstring
  definition_w :: jsstring
  createdAt :: int

datatype UserRating = again | hard | good | easy

subsection \<open>sm2.ts\<close>

fun ratingToQuality :: "UserRating \<Rightarrow> int" where
  "ratingToQuality again = 0"
| "ratingToQuality hard = 2"
| "ratingToQuality good = 4"
| "ratingToQuality easy = 5"

text \<open>
  \<open>calculateNextReview\<close> reads the clock once (\<open>Date.now()\<close>); the instant is the
  argument \<open>now\<close>. The result is the object of the seven updated fields.
\<close>

definition calculateNextReview :: "'a SM2Values_scheme \<Rightarrow> UserRating \<Rightarrow> int \<Rightarrow> SM2Values" where
  "calculateNextReview word rating now =
    (let quality = ratingToQuality rating;
         (interval1, repetitions1) =
           (if quality < 3 then (1, 0)
            else
              (if repetitions word = 0 then 1
               else if repetitions word = 1 then 6
               else round (real_of_int (interval word) * easeFactor word),
               repetitions word + 1));
         easeFactor1 = easeFactor word
            + (0.1 - real_of_int (5 - quality) * (0.08 + real_of_int (5 - quality) * 0.02));
         easeFactor2 = (if easeFactor1 < 1.3 then 1.3 else easeFactor1);
         nextReview1 = now + interval1 * 24 * 60 * 60 * 1000;
         timesCorrect1 = (if quality \<ge> 3 then timesCorrect word + 1 else timesCorrect word);
         timesIncorrect1 = (if quality < 3 then timesIncorrect word + 1 else timesIncorrect word)
     in \<lparr> easeFactor = easeFactor2,
          interval = interval1,
          repetitions = repetitions1,
          nextReview = nextReview1,
          lastReview = Some now,
          timesCorrect = timesCorrect1,
          timesIncorrect = timesIncorrect1 \<rparr>)"

definition getDefaultSM2Values :: "int \<Rightarrow> SM2Values" where
  "getDefaultSM2Values now =
     \<lparr> easeFactor = 2.5,
       interval = 0,
       repetitions = 0,
       nextReview = now,
       lastReview = None,
       timesCorrect = 0,
       timesIncorrect = 0 \<rparr>"

definition getNextReviewText :: "int \<Rightarrow> int \<Rightarrow> jsstring" where
  "getNextReviewText now nextReview1 =
    (let diff = nextReview1 - now in
     if diff \<le> 0 then js ''Nu''
     else
       let minutes = diff div (1000 * 60);
           hours = diff div (1000 * 60 * 60);
           days = diff div (1000 * 60 * 60 * 24)
       in if days > 0 then numToString days @ js '' dag'' @ (if days > 1 then js ''en'' else js '''')
          else if hours > 0 then numToString hours @ js '' uur''
          else if minutes > 0 then numToString minutes @ js '' min''
          else js ''Nu'')"

subsection \<open>Double-precision arithmetic for calculateMastery\<close>










subsection \<open>Practice.tsx, handleRate: the updates are merged into the word\<close>

definition handleRate :: "'a SM2Values_scheme \<Rightarrow> UserRating \<Rightarrow> int \<Rightarrow> 'a SM2Values_scheme" where
  "handleRate currentWord rating now =
    (let updates = calculateNextReview currentWord rating now
     in currentWord \<lparr> easeFactor := easeFactor updates,
                      interval := interval updates,
                      repetitions := repetitions updates,
                      nextReview := nextReview updates,
                      lastReview := lastReview updates,
                      timesCorrect := timesCorrect updates,
                      timesIncorrect := timesIncorrect updates \<rparr>)"

text \<open>A run of reviews that are all rated \<open>again\<close>, one review instant per element.\<close>

definition againRun :: "'a SM2Values_scheme \<Rightarrow> int list \<Rightarrow> 'a SM2Values_scheme" where
  "againRun w ts = foldl (\<lambda>w t. handleRate w again t) w ts"

section \<open>Extractor: strings and regular expressions as ocr.ts uses them\<close>

text \<open>
  The Unicode tables of the JavaScript engine are not part of the program: the general
  categories \<open>L\<close> and \<open>N\<close> behind \<open>\p{L}\<close> and \<open>\p{N}\<close>, and the case mapping behind
  \<open>toLowerCase\<close>. Their ASCII part is written out below; everything beyond ASCII is a
  parameter, the record \<open>engine\<close>: the two categories on code points from 128 on, and the
  lower-casing of a string that holds a code unit from 128 on.
\<close>

record engine =
  letter :: "nat \<Rightarrow> bool"
  number :: "nat \<Rightarrow> bool"
  lowerCase :: "jsstring \<Rightarrow> jsstring"

text \<open>
  \<open>\s\<close>, which is also what \<open>trim\<close> strips: the white space and line terminators of
  ECMAScript.
\<close>

definition isSpace :: "nat \<Rightarrow> bool" where
  "isSpace c = (c \<in> {9, 10, 11, 12, 13, 32, 160, 0x1680, 0x2028, 0x2029, 0x202F, 0x205F, 0x3000, 0xFEFF}
                \<or> (0x2000 \<le> c \<and> c \<le> 0x200A))"

definition isDigit :: "nat \<Rightarrow> bool" where
  "isDigit c = (48 \<le> c \<and> c \<le> 57)"

definition isLineTerminator :: "nat \<Rightarrow> bool" where
  "isLineTerminator c = (c \<in> {10, 13, 0x2028, 0x2029})"

definition isLetter :: "engine \<Rightarrow> nat \<Rightarrow> bool" where
  "isLetter eng c =
     (if c < 128 then (65 \<le> c \<and> c \<le> 90) \<or> (97 \<le> c \<and> c \<le> 122) else letter eng c)"

definition isNumber :: "engine \<Rightarrow> nat \<Rightarrow> bool" where
  "isNumber eng c = (if c < 128 then isDigit c else number eng c)"

definition toLowerCase :: "engine \<Rightarrow> jsstring \<Rightarrow> jsstring" where
  "toLowerCase eng s =
     (if list_all (\<lambda>c. c < 128) s then map (\<lambda>c. if 65 \<le> c \<and> c \<le> 90 then c + 32 else c) s
      else lowerCase eng s)"

definition trim :: "jsstring \<Rightarrow> jsstring" where
  "trim s = rev (dropWhile isSpace (rev (dropWhile isSpace s)))"

fun splitOn :: "nat \<Rightarrow> jsstring \<Rightarrow> jsstring list" where
  "splitOn sep [] = [[]]"
| "splitOn sep (c # cs) =
     (if c = sep then [] # splitOn sep cs
      else (case splitOn sep cs of [] \<Rightarrow> [[c]] | x # xs \<Rightarrow> (c # x) # xs))"

fun joinWith :: "jsstring \<Rightarrow> jsstring list \<Rightarrow> jsstring" where
  "joinWith sep [] = []"
| "joinWith sep [x] = x"
| "joinWith sep (x # y # ys) = x @ sep @ joinWith sep (y # ys)"

definition startsWith :: "jsstring \<Rightarrow> jsstring \<Rightarrow> bool" where
  "startsWith s p = (take (length p) s = p)"

definition endsWith :: "jsstring \<Rightarrow> jsstring \<Rightarrow> bool" where
  "endsWith s p = (length p \<le> length s \<and> drop (length s - length p) s = p)"

text \<open>
  Every regular expression of the file is a sequence of greedy quantified character
  classes, here \<open>Rep class min max\<close>. \<open>matchK\<close> matches such a sequence at the start of a
  string as a backtracking matcher does: the first piece takes \<open>k\<close> characters, the
  longest run first, and gives one back at a time while the rest of the pattern fails.
  With \<open>atEnd\<close> the pattern ends in \<open>$\<close>. The result is what each piece consumed and what
  is left of the string.
\<close>

datatype piece = Rep "nat \<Rightarrow> bool" nat "nat option"

type_synonym regex = "piece list"

fun maxCount :: "regex \<Rightarrow> jsstring \<Rightarrow> nat" where
  "maxCount [] s = 0"
| "maxCount (Rep cls lo None # ps) s = length (takeWhile cls s)"
| "maxCount (Rep cls lo (Some hi) # ps) s = min hi (length (takeWhile cls s))"

fun matchK :: "regex \<Rightarrow> bool \<Rightarrow> jsstring \<Rightarrow> nat \<Rightarrow> (jsstring list \<times> jsstring) option" where
  "matchK [] atEnd s k = (if atEnd \<and> s \<noteq> [] then None else Some ([], s))"
| "matchK (Rep cls lo hi # ps) atEnd s k =
     (if k < lo then None
      else (case matchK ps atEnd (drop k s) (maxCount ps (drop k s)) of
              Some (gs, rest) \<Rightarrow> Some (take k s # gs, rest)
            | None \<Rightarrow> (if k = 0 then None else matchK (Rep cls lo hi # ps) atEnd s (k - 1))))"

definition rxExec :: "regex \<Rightarrow> bool \<Rightarrow> jsstring \<Rightarrow> (jsstring list \<times> jsstring) option" where
  "rxExec r atEnd s = matchK r atEnd s (maxCount r s)"

text \<open>\<open>RegExp.test\<close> without the \<open>g\<close> flag: a match at some position, the end included.\<close>

fun rxTest :: "regex \<Rightarrow> jsstring \<Rightarrow> bool" where
  "rxTest r [] = (rxExec r False [] \<noteq> None)"
| "rxTest r (c # cs) = (rxExec r False (c # cs) \<noteq> None \<or> rxTest r cs)"

text \<open>
  \<open>String.split\<close> with a regular expression without groups: \<open>cur\<close> is the part collected
  since the last separator, the third argument is the text from the position tried next.
  A match that consumes nothing never ends a part at its own start.
\<close>

fun splitLoop :: "regex \<Rightarrow> jsstring \<Rightarrow> jsstring \<Rightarrow> jsstring list" where
  "splitLoop r cur [] = [cur]"
| "splitLoop r cur (c # cs) =
     (case rxExec r False (c # cs) of
        None \<Rightarrow> splitLoop r (cur @ [c]) cs
      | Some (gs, rest) \<Rightarrow>
          (let k = length (concat gs) in
           if k = 0 then (if cur = [] then splitLoop r [c] cs else cur # splitLoop r [c] cs)
           else cur # splitLoop r [] (drop (k - 1) cs)))"

definition rxSplit :: "regex \<Rightarrow> jsstring \<Rightarrow> jsstring list" where
  "rxSplit r s =
     (if s = [] then (if rxExec r False [] \<noteq> None then [] else [[]])
      else splitLoop r [] s)"

text \<open>\<open>replace\<close> with a pattern anchored by \<open>^\<close> and the empty replacement.\<close>

definition rxStripPrefix :: "regex \<Rightarrow> jsstring \<Rightarrow> jsstring" where
  "rxStripPrefix r s = (case rxExec r False s of None \<Rightarrow> s | Some (gs, rest) \<Rightarrow> rest)"


text \<open>With the \<open>u\<close> flag a surrogate pair is one code point.\<close>

definition isHighSurrogate :: "nat \<Rightarrow> bool" where
  "isHighSurrogate c = (0xD800 \<le> c \<and> c \<le> 0xDBFF)"

definition isLowSurrogate :: "nat \<Rightarrow> bool" where
  "isLowSurrogate c = (0xDC00 \<le> c \<and> c \<le> 0xDFFF)"

definition codePoint :: "nat \<Rightarrow> nat \<Rightarrow> nat" where
  "codePoint hi lo = 0x10000 + (hi - 0xD800) * 0x400 + (lo - 0xDC00)"

text \<open>
  \<open>replace(/[...]/gu, '')\<close> for a one-character class \<open>cls\<close>, read over code points.
\<close>

fun removeAllU :: "(nat \<Rightarrow> bool) \<Rightarrow> jsstring \<Rightarrow> jsstring" where
  "removeAllU cls [] = []"
| "removeAllU cls [c] = (if cls c then [] else [c])"
| "removeAllU cls (c # d # cs) =
     (if isHighSurrogate c \<and> isLowSurrogate d
      then (if cls (codePoint c d) then removeAllU cls cs else c # d # removeAllU cls cs)
      else (if cls c then removeAllU cls (d # cs) else c # removeAllU cls (d # cs)))"

section \<open>Extractor: ocr.ts (seven separators, header filter)\<close>

record ParsedWordPair =
  term_p :: jsstring
  definition_p :: jsstring
  confidence :: real

record OCRResult =
  rawText :: jsstring
  pairs :: "ParsedWordPair list"
  parseErrors :: "jsstring list"

definition isDash :: "nat \<Rightarrow> bool" where
  "isDash c = (c \<in> {45, 0x2013, 0x2014})"

definition SEPARATORS :: "regex list" where
  "SEPARATORS =
    [ [Rep isSpace 1 None, Rep isDash 1 (Some 1), Rep isSpace 1 None],
      [Rep isSpace 0 None, Rep isDash 1 (Some 1), Rep isSpace 0 None],
      [Rep isSpace 0 None, Rep (\<lambda>c. c = 61) 1 (Some 1), Rep isSpace 0 None],
      [Rep isSpace 0 None, Rep (\<lambda>c. c = 58) 1 (Some 1), Rep isSpace 0 None],
      [Rep isSpace 0 None, Rep (\<lambda>c. c = 124) 1 (Some 1), Rep isSpace 0 None],
      [Rep (\<lambda>c. c = 9) 1 None],
      [Rep isSpace 4 None] ]"

definition ordinalPrefix :: regex where
  "ordinalPrefix = [Rep isDigit 1 None, Rep (\<lambda>c. c = 46) 1 (Some 1), Rep isSpace 0 None]"

definition headerWords :: "jsstring list" where
  "headerWords = [js ''frans'', js ''nederlands'', js ''engels'', js ''duits'', js ''spaans'',
                  js ''woord'', js ''betekenis'', js ''vertaling'']"

text \<open>
  The two nested tests of the first \<open>if\<close> are one conjunction here; both fall through to
  the header words when they fail.
\<close>

definition isLikelyHeader :: "engine \<Rightarrow> jsstring \<Rightarrow> bool" where
  "isLikelyHeader eng line =
    (let cleanLine = trim (rxStripPrefix ordinalPrefix line) in
     if length cleanLine < 15 \<and> \<not> list_ex (\<lambda>sep. rxTest sep cleanLine) SEPARATORS
        \<and> \<not> 45 \<in> set cleanLine \<and> \<not> 61 \<in> set cleanLine
     then True
     else
       let lowerLine = toLowerCase eng cleanLine in
       if list_ex (\<lambda>h. lowerLine = h \<or> startsWith lowerLine (h @ js '' '')
                          \<or> endsWith lowerLine (js '' '' @ h)) headerWords
       then True
       else False)"

definition isBullet :: "nat \<Rightarrow> bool" where
  "isBullet c = (c \<in> {0x2022, 0xB7, 0x2219, 0x25CB, 0x25CF, 0x25E6, 0x25AA, 0x25AB, 0x25A0, 0x25A1, 45, 42})"

definition cleanAllowed :: "engine \<Rightarrow> nat \<Rightarrow> bool" where
  "cleanAllowed eng c =
    (isLetter eng c \<or> isNumber eng c \<or> isSpace c \<or> c \<in> {45, 39, 46, 44, 40, 41}
     \<or> c \<in> {0xE9, 32, 0xE8, 0xEA, 0xEB, 0xE0, 0xE2, 0xE4, 0xF9, 0xFB, 0xFC, 0xEF, 0xEE, 0xF4,
            0xF6, 0xE7, 0x153, 0xE6})"

definition cleanWord :: "engine \<Rightarrow> jsstring \<Rightarrow> jsstring" where
  "cleanWord eng word =
     trim (removeAllU (\<lambda>c. \<not> cleanAllowed eng c)
       (rxStripPrefix [Rep isBullet 1 None, Rep isSpace 0 None]
         (rxStripPrefix ordinalPrefix (trim word))))"

definition usualChar :: "nat \<Rightarrow> bool" where
  "usualChar c =
    ((97 \<le> c \<and> c \<le> 122) \<or> (65 \<le> c \<and> c \<le> 90)
     \<or> c \<in> {0xE0, 0xE2, 0xE4, 0xE9, 0xE8, 0xEA, 0xEB, 0xEF, 0xEE, 0xF4, 0xF9, 0xFB, 0xFC, 0xFF,
            0xE7, 0x153, 0xE6, 0xC0, 0xC2, 0xC4, 0xC9, 0xC8, 0xCA, 0xCB, 0xCF, 0xCE, 0xD4, 0xD9,
            0xDB, 0xDC, 0x178, 0xC7, 0x152, 0xC6}
     \<or> isSpace c \<or> c = 45 \<or> c = 39)"

definition calculateConfidence :: "jsstring \<Rightarrow> jsstring \<Rightarrow> real" where
  "calculateConfidence term1 definition1 =
    (let confidence0 = (1.0::real);
         confidence1 = (if length term1 < 2 \<or> length definition1 < 2
                        then confidence0 * 0.5 else confidence0);
         confidence2 = (if rxTest [Rep isDigit 1 (Some 1)] term1
                           \<or> rxTest [Rep isDigit 1 (Some 1)] definition1
                        then confidence1 * 0.7 else confidence1);
         confidence3 = (if rxTest [Rep (\<lambda>c. \<not> usualChar c) 1 (Some 1)] (term1 @ definition1)
                        then confidence2 * 0.8 else confidence2)
     in real_of_int (round (confidence3 * 100)) / 100)"

definition detectTableFormat :: "engine \<Rightarrow> jsstring \<Rightarrow> ParsedWordPair option" where
  "detectTableFormat eng line =
    (case rxExec [Rep (\<lambda>c. \<not> isLineTerminator c) 2 (Some 30), Rep isSpace 4 None,
                  Rep (\<lambda>c. \<not> isLineTerminator c) 2 None] True line of
       Some ([g1, gap, g2], rest) \<Rightarrow>
         (let term1 = cleanWord eng g1; definition1 = cleanWord eng g2 in
          if term1 \<noteq> [] \<and> definition1 \<noteq> []
          then Some \<lparr> term_p = term1, definition_p = definition1, confidence = 0.7 \<rparr>
          else None)
     | _ \<Rightarrow> None)"

text \<open>The loop over the separators in \<open>parseLine\<close>, leaving at the first pair.\<close>

fun trySeparators :: "engine \<Rightarrow> regex list \<Rightarrow> jsstring \<Rightarrow> ParsedWordPair option" where
  "trySeparators eng [] line = None"
| "trySeparators eng (separator # rest) line =
    (case rxSplit separator line of
       part0 # part1 # others \<Rightarrow>
         (let term1 = cleanWord eng part0;
              definition1 = cleanWord eng (joinWith (js '' '') (part1 # others)) in
          if term1 \<noteq> [] \<and> definition1 \<noteq> []
          then Some \<lparr> term_p = term1, definition_p = definition1,
                      confidence = calculateConfidence term1 definition1 \<rparr>
          else trySeparators eng rest line)
     | _ \<Rightarrow> trySeparators eng rest line)"

definition parseLine :: "engine \<Rightarrow> jsstring \<Rightarrow> ParsedWordPair option" where
  "parseLine eng line =
    (case trySeparators eng SEPARATORS line of
       Some pair \<Rightarrow> Some pair
     | None \<Rightarrow> detectTableFormat eng line)"

text \<open>The loop over the lines in \<open>parseWordPairs\<close>, with the arrays \<open>pairs\<close> and \<open>parseErrors\<close>.\<close>

fun parseLoop :: "engine \<Rightarrow> jsstring list \<Rightarrow> ParsedWordPair list \<Rightarrow> jsstring list
                   \<Rightarrow> ParsedWordPair list \<times> jsstring list" where
  "parseLoop eng [] ps es = (ps, es)"
| "parseLoop eng (line # lines) ps es =
    (if isLikelyHeader eng line then parseLoop eng lines ps es
     else (case parseLine eng line of
             Some pair \<Rightarrow> parseLoop eng lines (ps @ [pair]) es
           | None \<Rightarrow> if length line > 2 then parseLoop eng lines ps (es @ [line])
                     else parseLoop eng lines ps es))"

definition parseWordPairs :: "engine \<Rightarrow> jsstring \<Rightarrow> OCRResult" where
  "parseWordPairs eng rawText1 =
    (let lines = filter (\<lambda>line. length line > 0) (map trim (splitOn 10 rawText1));
         (ps, es) = parseLoop eng lines [] []
     in \<lparr> rawText = rawText1, pairs = ps, parseErrors = es \<rparr>)"

subsection \<open>The shared RegExp objects\<close>

text \<open>
  \<open>SEPARATORS\<close> is an array of RegExp objects created once, when the module is loaded,
  and shared by every call. A RegExp object carries state: its \<open>lastIndex\<close>, which
  \<open>RegExp.test\<close> reads and writes when the object has the \<open>g\<close> or the \<open>y\<close> flag. This is
  the only state that outlives a call of \<open>parseWordPairs\<close>: the module reads no clock and no
  random source and keeps no other variable, and a regular expression literal inside a
  function is a fresh object at every evaluation. The functions below are the extraction
  once more with the array of objects passed in and returned. \<open>String.split\<close> builds its
  own matcher from the source and the flags of the separator and leaves the object alone.
\<close>

record RegExpObject =
  source :: regex
  global :: bool
  sticky :: bool
  lastIndex :: nat

text \<open>
  The end index of the first match at or after the current position; the second argument
  is the text from that position on, the third the position.
\<close>

fun rxSearch :: "regex \<Rightarrow> jsstring \<Rightarrow> nat \<Rightarrow> nat option" where
  "rxSearch r [] q =
     (case rxExec r False [] of None \<Rightarrow> None | Some (gs, rest) \<Rightarrow> Some (q + length (concat gs)))"
| "rxSearch r (c # cs) q =
     (case rxExec r False (c # cs) of
        None \<Rightarrow> rxSearch r cs (Suc q)
      | Some (gs, rest) \<Rightarrow> Some (q + length (concat gs)))"

text \<open>
  \<open>RegExpBuiltinExec\<close>, returning the end index of the match: the search starts at
  \<open>lastIndex\<close> for an object with the \<open>g\<close> or \<open>y\<close> flag and at 0 otherwise; with \<open>y\<close> only a
  match at the start position counts; an object with \<open>g\<close> or \<open>y\<close> gets \<open>lastIndex\<close> set to
  the end of the match, or to 0 when there is none.
\<close>

definition regExpExec :: "RegExpObject \<Rightarrow> jsstring \<Rightarrow> nat option \<times> RegExpObject" where
  "regExpExec R s =
    (let stateful = (global R \<or> sticky R);
         start = (if stateful then lastIndex R else 0);
         found =
           (if start > length s then None
            else if sticky R
            then (case rxExec (source R) False (drop start s) of
                    None \<Rightarrow> None
                  | Some (gs, rest) \<Rightarrow> Some (start + length (concat gs)))
            else rxSearch (source R) (drop start s) start)
     in case found of
          None \<Rightarrow> (None, if stateful then R \<lparr> lastIndex := 0 \<rparr> else R)
        | Some e \<Rightarrow> (Some e, if stateful then R \<lparr> lastIndex := e \<rparr> else R))"

definition regExpTest :: "RegExpObject \<Rightarrow> jsstring \<Rightarrow> bool \<times> RegExpObject" where
  "regExpTest R s = (case regExpExec R s of (found, R1) \<Rightarrow> (found \<noteq> None, R1))"

text \<open>\<open>SEPARATORS.some(sep => sep.test(cleanLine))\<close>: the tests stop at the first hit.\<close>

fun someTest :: "RegExpObject list \<Rightarrow> jsstring \<Rightarrow> bool \<times> RegExpObject list" where
  "someTest [] s = (False, [])"
| "someTest (R # Rs) s =
     (case regExpTest R s of
        (True, R1) \<Rightarrow> (True, R1 # Rs)
      | (False, R1) \<Rightarrow> (case someTest Rs s of (hit, Rs1) \<Rightarrow> (hit, R1 # Rs1)))"

definition isLikelyHeader_st :: "engine \<Rightarrow> RegExpObject list \<Rightarrow> jsstring
                                  \<Rightarrow> bool \<times> RegExpObject list" where
  "isLikelyHeader_st eng seps line =
    (let cleanLine = trim (rxStripPrefix ordinalPrefix line);
         (anySeparator, seps1) =
            (if length cleanLine < 15 then someTest seps cleanLine else (False, seps))
     in if length cleanLine < 15 \<and> \<not> anySeparator
           \<and> \<not> 45 \<in> set cleanLine \<and> \<not> 61 \<in> set cleanLine
        then (True, seps1)
        else
          let lowerLine = toLowerCase eng cleanLine in
          if list_ex (\<lambda>h. lowerLine = h \<or> startsWith lowerLine (h @ js '' '')
                             \<or> endsWith lowerLine (js '' '' @ h)) headerWords
          then (True, seps1)
          else (False, seps1))"

definition parseLine_st :: "engine \<Rightarrow> RegExpObject list \<Rightarrow> jsstring \<Rightarrow> ParsedWordPair option" where
  "parseLine_st eng seps line =
    (case trySeparators eng (map source seps) line of
       Some pair \<Rightarrow> Some pair
     | None \<Rightarrow> detectTableFormat eng line)"

fun parseLoop_st :: "engine \<Rightarrow> jsstring list \<Rightarrow> ParsedWordPair list \<Rightarrow> jsstring list
                      \<Rightarrow> RegExpObject list
                      \<Rightarrow> (ParsedWordPair list \<times> jsstring list) \<times> RegExpObject list" where
  "parseLoop_st eng [] ps es seps = ((ps, es), seps)"
| "parseLoop_st eng (line # lines) ps es seps =
    (case isLikelyHeader_st eng seps line of
       (True, seps1) \<Rightarrow> parseLoop_st eng lines ps es seps1
     | (False, seps1) \<Rightarrow>
         (case parseLine_st eng seps1 line of
            Some pair \<Rightarrow> parseLoop_st eng lines (ps @ [pair]) es seps1
          | None \<Rightarrow> if length line > 2 then parseLoop_st eng lines ps (es @ [line]) seps1
                    else parseLoop_st eng lines ps es seps1))"

definition parseWordPairs_st :: "engine \<Rightarrow> jsstring \<Rightarrow> RegExpObject list
                                  \<Rightarrow> OCRResult \<times> RegExpObject list" where
  "parseWordPairs_st eng rawText1 seps =
    (let lines = filter (\<lambda>line. length line > 0) (map trim (splitOn 10 rawText1))
     in case parseLoop_st eng lines [] [] seps of
          ((ps, es), seps1) \<Rightarrow> (\<lparr> rawText = rawText1, pairs = ps, parseErrors = es \<rparr>, seps1))"

text \<open>The array as the module creates it: no flag, \<open>lastIndex\<close> 0.\<close>

definition SEPARATORS_objects :: "RegExpObject list" where
  "SEPARATORS_objects =
     map (\<lambda>r. \<lparr> source = r, global = False, sticky = False, lastIndex = 0 \<rparr>) SEPARATORS"

text \<open>The array after the extraction has run on each of a list of texts, in order.\<close>

text \<open>No object of the array has the \<open>g\<close> or the \<open>y\<close> flag.\<close>

definition stateless :: "RegExpObject list \<Rightarrow> bool" where
  "stateless seps = list_all (\<lambda>R. \<not> global R \<and> \<not> sticky R) seps"

text \<open>
  For comparison only, not the program's array: the same seven patterns with the \<open>g\<close>
  flag.
\<close>

definition gSeps :: "RegExpObject list" where
  "gSeps = map (\<lambda>r. \<lparr> source = r, global = True, sticky = False, lastIndex = 0 \<rparr>) SEPARATORS"

definition afterRuns :: "engine \<Rightarrow> jsstring list \<Rightarrow> RegExpObject list \<Rightarrow> RegExpObject list" where
  "afterRuns eng texts seps = foldl (\<lambda>s t. snd (parseWordPairs_st eng t s)) seps texts"

section \<open>Extractor: the other ocr.ts (six separators, no header filter)\<close>

definition SEPARATORS_alt :: "regex list" where
  "SEPARATORS_alt =
    [ [Rep isSpace 0 None, Rep isDash 1 (Some 1), Rep isSpace 0 None],
      [Rep isSpace 0 None, Rep (\<lambda>c. c = 61) 1 (Some 1), Rep isSpace 0 None],
      [Rep isSpace 0 None, Rep (\<lambda>c. c = 58) 1 (Some 1), Rep isSpace 0 None],
      [Rep isSpace 0 None, Rep (\<lambda>c. c = 124) 1 (Some 1), Rep isSpace 0 None],
      [Rep (\<lambda>c. c = 9) 1 None],
      [Rep isSpace 3 None] ]"

definition cleanAllowed_alt :: "engine \<Rightarrow> nat \<Rightarrow> bool" where
  "cleanAllowed_alt eng c =
    (isLetter eng c \<or> isNumber eng c \<or> isSpace c \<or> c \<in> {45, 39, 46, 44, 40, 41})"

definition cleanWord_alt :: "engine \<Rightarrow> jsstring \<Rightarrow> jsstring" where
  "cleanWord_alt eng word =
     trim (removeAllU (\<lambda>c. \<not> cleanAllowed_alt eng c)
       (rxStripPrefix [Rep (\<lambda>c. isBullet c \<or> isDigit c \<or> c = 46) 1 None, Rep isSpace 0 None]
         (trim word)))"

definition detectTableFormat_alt :: "engine \<Rightarrow> jsstring \<Rightarrow> ParsedWordPair option" where
  "detectTableFormat_alt eng line =
    (case rxExec [Rep (\<lambda>c. \<not> isLineTerminator c) 2 (Some 30), Rep isSpace 4 None,
                  Rep (\<lambda>c. \<not> isLineTerminator c) 2 None] True line of
       Some ([g1, gap, g2], rest) \<Rightarrow>
         (let term1 = cleanWord_alt eng g1; definition1 = cleanWord_alt eng g2 in
          if term1 \<noteq> [] \<and> definition1 \<noteq> []
          then Some \<lparr> term_p = term1, definition_p = definition1, confidence = 0.7 \<rparr>
          else None)
     | _ \<Rightarrow> None)"

fun trySeparators_alt :: "engine \<Rightarrow> regex list \<Rightarrow> jsstring \<Rightarrow> ParsedWordPair option" where
  "trySeparators_alt eng [] line = None"
| "trySeparators_alt eng (separator # rest) line =
    (case rxSplit separator line of
       part0 # part1 # others \<Rightarrow>
         (let term1 = cleanWord_alt eng part0;
              definition1 = cleanWord_alt eng (joinWith (js '' '') (part1 # others)) in
          if term1 \<noteq> [] \<and> definition1 \<noteq> []
          then Some \<lparr> term_p = term1, definition_p = definition1,
                      confidence = calculateConfidence term1 definition1 \<rparr>
          else trySeparators_alt eng rest line)
     | _ \<Rightarrow> trySeparators_alt eng rest line)"

definition parseLine_alt :: "engine \<Rightarrow> jsstring \<Rightarrow> ParsedWordPair option" where
  "parseLine_alt eng line =
    (case trySeparators_alt eng SEPARATORS_alt line of
       Some pair \<Rightarrow> Some pair
     | None \<Rightarrow> detectTableFormat_alt eng line)"

fun parseLoop_alt :: "engine \<Rightarrow> jsstring list \<Rightarrow> ParsedWordPair list \<Rightarrow> jsstring list
                   \<Rightarrow> ParsedWordPair list \<times> jsstring list" where
  "parseLoop_alt eng [] ps es = (ps, es)"
| "parseLoop_alt eng (line # lines) ps es =
    (case parseLine_alt eng line of
       Some pair \<Rightarrow> parseLoop_alt eng lines (ps @ [pair]) es
     | None \<Rightarrow> if length line > 2 then parseLoop_alt eng lines ps (es @ [line])
               else parseLoop_alt eng lines ps es)"

definition parseWordPairs_alt :: "engine \<Rightarrow> jsstring \<Rightarrow> OCRResult" where
  "parseWordPairs_alt eng rawText1 =
    (let lines = filter (\<lambda>line. length line > 0) (map trim (splitOn 10 rawText1));
         (ps, es) = parseLoop_alt eng lines [] []
     in \<lparr> rawText = rawText1, pairs = ps, parseErrors = es \<rparr>)"

text \<open>An engine whose tables hold nothing beyond ASCII, for concrete runs.\<close>

definition asciiEngine :: engine where
  "asciiEngine = \<lparr> letter = (\<lambda>c. False), number = (\<lambda>c. False), lowerCase = (\<lambda>s. s) \<rparr>"

section \<open>Scheduler: properties\<close>

lemma cnr_simps:
  "easeFactor (calculateNextReview w r now) =
     (let e = easeFactor w + (0.1 - real_of_int (5 - ratingToQuality r) * (0.08 + real_of_int (5 - ratingToQuality r) * 0.02))
      in if e < 1.3 then 1.3 else e)"
  "interval (calculateNextReview w r now) =
     (if ratingToQuality r < 3 then 1
      else if repetitions w = 0 then 1 else if repetitions w = 1 then 6
      else round (real_of_int (interval w) * easeFactor w))"
  "repetitions (calculateNextReview w r now) =
     (if ratingToQuality r < 3 then 0 else repetitions w + 1)"
  "nextReview (calculateNextReview w r now) =
     now + interval (calculateNextReview w r now) * 24 * 60 * 60 * 1000"
  by (simp_all add: calculateNextReview_def Let_def)

lemma handleRate_fields:
  "easeFactor (handleRate w r now) = easeFactor (calculateNextReview w r now)"
  "interval (handleRate w r now) = interval (calculateNextReview w r now)"
  "repetitions (handleRate w r now) = repetitions (calculateNextReview w r now)"
  "nextReview (handleRate w r now) = nextReview (calculateNextReview w r now)"
  by (simp_all add: handleRate_def Let_def)

text \<open>
  Claim C1. If an item enters \<open>calculateNextReview\<close> with ease factor at least 1.3 and a
  non-negative interval, then for every rating the returned fields again have ease factor
  at least 1.3 and a non-negative interval.
\<close>

theorem nextState_preserves_bounds:
  assumes "1.3 \<le> easeFactor w" and "0 \<le> interval w"
  shows "1.3 \<le> easeFactor (calculateNextReview w r now) \<and> 0 \<le> interval (calculateNextReview w r now)"
proof -
  have e: "1.3 \<le> easeFactor (calculateNextReview w r now)"
    by (simp add: cnr_simps Let_def)
  have "0 \<le> real_of_int (interval w) * easeFactor w"
    using assms by (intro mult_nonneg_nonneg) auto
  then have "0 \<le> round (real_of_int (interval w) * easeFactor w)"
    by (simp add: round_def) 
  then have i: "0 \<le> interval (calculateNextReview w r now)"
    by (simp add: cnr_simps)
  from e i show ?thesis by simp
qed

theorem nextState_preserves_bounds_witness:
  "1.3 \<le> easeFactor (getDefaultSM2Values 0) \<and> 0 \<le> interval (getDefaultSM2Values 0)
   \<and> 1.3 \<le> easeFactor (calculateNextReview (getDefaultSM2Values 0) hard 1000)
   \<and> 0 \<le> interval (calculateNextReview (getDefaultSM2Values 0) hard 1000)"
  using nextState_preserves_bounds [of "getDefaultSM2Values 0" hard 1000]
  by (simp add: getDefaultSM2Values_def)

lemma again_step:
  "interval (handleRate w again t) = 1"
  "repetitions (handleRate w again t) = 0"
  "easeFactor (handleRate w again t) = max 1.3 (easeFactor w - 0.8)"
  by (simp_all add: handleRate_fields cnr_simps Let_def max_def)

lemma againRun_snoc: "againRun w (ts @ [t]) = handleRate (againRun w ts) again t"
  by (simp add: againRun_def)

lemma againRun_nonempty:
  assumes "ts \<noteq> []"
  shows "interval (againRun w ts) = 1 \<and> repetitions (againRun w ts) = 0
         \<and> 1.3 \<le> easeFactor (againRun w ts)"
proof -
  from assms obtain us u where "ts = us @ [u]"
    by (metis append_butlast_last_id)
  then show ?thesis
    by (simp add: againRun_snoc again_step)
qed

text \<open>
  Claim C2. Rating an item \<open>again\<close> any number of times (at least once, at any review
  instants \<open>ts\<close>) leaves interval 1 and repetitions 0 after every application; every ease
  factor produced is at least 1.3, and one more \<open>again\<close> never raises it. For an item that
  satisfies the data model's bound (ease factor at least 1.3) the first \<open>again\<close> does not
  raise the ease factor either, so the whole sequence is non-increasing.
\<close>

theorem again_repeated:
  "(ts \<noteq> [] \<longrightarrow>
      interval (againRun w ts) = 1 \<and> repetitions (againRun w ts) = 0
      \<and> 1.3 \<le> easeFactor (againRun w ts)
      \<and> easeFactor (againRun w (ts @ [t])) \<le> easeFactor (againRun w ts))
   \<and> (1.3 \<le> easeFactor w \<longrightarrow> easeFactor (againRun w [t]) \<le> easeFactor w)"
proof -
  have a: "easeFactor (againRun w (ts @ [t])) \<le> easeFactor (againRun w ts)" if "ts \<noteq> []"
    using againRun_nonempty [OF that, of w] by (simp add: againRun_snoc again_step)
  have b: "easeFactor (againRun w [t]) \<le> easeFactor w" if "1.3 \<le> easeFactor w"
    using that againRun_snoc [of w "[]" t] by (simp add: again_step againRun_def)
  from a b againRun_nonempty show ?thesis by blast
qed

theorem again_repeated_witness:
  "[5, 9] \<noteq> ([]::int list)
   \<and> interval (againRun (getDefaultSM2Values 0) [5, 9]) = 1
   \<and> repetitions (againRun (getDefaultSM2Values 0) [5, 9]) = 0
   \<and> 1.3 \<le> easeFactor (againRun (getDefaultSM2Values 0) [5, 9])
   \<and> easeFactor (againRun (getDefaultSM2Values 0) ([5, 9] @ [12]))
        \<le> easeFactor (againRun (getDefaultSM2Values 0) [5, 9])
   \<and> 1.3 \<le> easeFactor (getDefaultSM2Values 0)
   \<and> easeFactor (againRun (getDefaultSM2Values 0) [12]) \<le> easeFactor (getDefaultSM2Values 0)"
  using again_repeated [of "[5, 9]" "getDefaultSM2Values 0" 12]
  by (simp add: getDefaultSM2Values_def)

text \<open>
  Claim C3. From the default state, three consecutive \<open>good\<close> ratings at non-decreasing
  review instants give repetitions 3, the intervals 1, 6 and \<open>round (6 * easeFactor)\<close>
  (the ease factor is 2.5 before and after the third rating, so this is 15), and strictly
  increasing next-review timestamps.
\<close>

theorem three_good:
  assumes "t1 \<le> t2" and "t2 \<le> t3"
  shows "let s0 = getDefaultSM2Values t0;
             s1 = handleRate s0 good t1;
             s2 = handleRate s1 good t2;
             s3 = handleRate s2 good t3
         in repetitions s3 = 3
            \<and> interval s1 = 1 \<and> interval s2 = 6
            \<and> interval s3 = round (6 * easeFactor s2)
            \<and> interval s3 = round (6 * easeFactor s3)
            \<and> nextReview s1 < nextReview s2 \<and> nextReview s2 < nextReview s3"
  using assms
  by (simp add: Let_def handleRate_fields cnr_simps getDefaultSM2Values_def handleRate_def)

theorem three_good_witness:
  "(10::int) \<le> 10 \<and> (10::int) \<le> 20 \<and>
   (let s0 = getDefaultSM2Values 0;
             s1 = handleRate s0 good 10;
             s2 = handleRate s1 good 10;
             s3 = handleRate s2 good 20
         in repetitions s3 = 3
            \<and> interval s1 = 1 \<and> interval s2 = 6
            \<and> interval s3 = round (6 * easeFactor s2)
            \<and> interval s3 = round (6 * easeFactor s3)
            \<and> nextReview s1 < nextReview s2 \<and> nextReview s2 < nextReview s3)"
  using three_good [of 10 10 20 0] by simp

subsection \<open>Mastery: the rounding error of the double-precision computation\<close>































lemma decimal_hd: "decimal n \<noteq> [] \<and> hd (decimal n) < 58"
proof (induction n rule: decimal.induct)
  case (1 n)
  show ?case
  proof (cases "n < 10")
    case True
    then show ?thesis by (subst decimal.simps, subst decimal.simps) simp
  next
    case False
    with 1 show ?thesis by (subst decimal.simps, subst decimal.simps) simp
  qed
qed

lemma numToString_not_Nu: "0 < d \<Longrightarrow> numToString d @ s \<noteq> js ''Nu''"
proof
  assume d: "0 < d" and eq: "numToString d @ s = js ''Nu''"
  from d have "numToString d = decimal (nat d)" by (simp add: numToString_def)
  with eq have "hd (decimal (nat d)) = 78"
    using decimal_hd [of "nat d"] by (cases "decimal (nat d)") (auto simp: js_def)
  with decimal_hd [of "nat d"] show False by simp
qed

lemma div_zero_below: "0 \<le> d \<Longrightarrow> d < k \<Longrightarrow> d div k = 0" for d k :: int
  by simp

lemma div_pos_above: "0 < k \<Longrightarrow> k \<le> d \<Longrightarrow> 0 < d div k" for d k :: int
  by (simp add: pos_imp_zdiv_pos_iff)

text \<open>
  Claim C5, as the code has it. \<open>getNextReviewText\<close> returns the word for "now" (\<open>Nu\<close>)
  exactly when the next review lies less than one minute after the current instant (every
  past timestamp included). From one minute up to one hour it returns the whole minutes,
  \<open>N min\<close>; from one hour up to one day the whole hours, \<open>N uur\<close>; from one day on the whole
  days, \<open>N dag\<close> for one day and \<open>N dagen\<close> for more.
\<close>

theorem dueText_cases:
  "(nr - now < 60000 \<longrightarrow> getNextReviewText now nr = js ''Nu'')
   \<and> (60000 \<le> nr - now \<and> nr - now < 3600000 \<longrightarrow>
        getNextReviewText now nr = numToString ((nr - now) div 60000) @ js '' min'')
   \<and> (3600000 \<le> nr - now \<and> nr - now < 86400000 \<longrightarrow>
        getNextReviewText now nr = numToString ((nr - now) div 3600000) @ js '' uur'')
   \<and> (86400000 \<le> nr - now \<longrightarrow>
        getNextReviewText now nr = numToString ((nr - now) div 86400000) @ js '' dag''
           @ (if (nr - now) div 86400000 > 1 then js ''en'' else js ''''))
   \<and> (getNextReviewText now nr = js ''Nu'' \<longrightarrow> nr - now < 60000)"
proof -
  define d where "d = nr - now"
  have g: "getNextReviewText now nr =
       (if d \<le> 0 then js ''Nu''
        else if d div 86400000 > 0
             then numToString (d div 86400000) @ js '' dag'' @ (if d div 86400000 > 1 then js ''en'' else js '''')
        else if d div 3600000 > 0 then numToString (d div 3600000) @ js '' uur''
        else if d div 60000 > 0 then numToString (d div 60000) @ js '' min''
        else js ''Nu'')"
    by (simp add: getNextReviewText_def Let_def d_def)
  have A: "getNextReviewText now nr = js ''Nu''" if "d < 60000"
  proof (cases "d \<le> 0")
    case True
    then show ?thesis by (simp add: g)
  next
    case False
    with that have "d div 86400000 = 0" "d div 3600000 = 0" "d div 60000 = 0"
      by (simp_all add: div_zero_below)
    then show ?thesis by (simp add: g)
  qed
  have B: "getNextReviewText now nr = numToString (d div 60000) @ js '' min''"
    if "60000 \<le> d" "d < 3600000"
  proof -
    from that have "d div 86400000 = 0" "d div 3600000 = 0" "0 < d div 60000" "\<not> d \<le> 0"
      by (simp_all add: div_zero_below div_pos_above)
    then show ?thesis by (simp add: g)
  qed
  have C: "getNextReviewText now nr = numToString (d div 3600000) @ js '' uur''"
    if "3600000 \<le> d" "d < 86400000"
  proof -
    from that have "d div 86400000 = 0" "0 < d div 3600000" "\<not> d \<le> 0"
      by (simp_all add: div_zero_below div_pos_above)
    then show ?thesis by (simp add: g)
  qed
  have D: "getNextReviewText now nr = numToString (d div 86400000) @ js '' dag''
           @ (if d div 86400000 > 1 then js ''en'' else js '''')"
    if "86400000 \<le> d"
  proof -
    from that have "0 < d div 86400000" "\<not> d \<le> 0"
      by (simp_all add: div_pos_above)
    then show ?thesis by (simp add: g)
  qed
  have E: "d < 60000" if "getNextReviewText now nr = js ''Nu''"
  proof (rule ccontr)
    assume "\<not> d < 60000"
    then have ge: "60000 \<le> d" by simp
    consider "d < 3600000" | "3600000 \<le> d" "d < 86400000" | "86400000 \<le> d" by linarith
    then show False
    proof cases
      case 1
      with ge B that have "numToString (d div 60000) @ js '' min'' = js ''Nu''" by simp
      moreover have "0 < d div 60000" using ge by (simp add: div_pos_above)
      ultimately show False using numToString_not_Nu by blast
    next
      case 2
      with C that have "numToString (d div 3600000) @ js '' uur'' = js ''Nu''" by simp
      moreover have "0 < d div 3600000" using 2 by (simp add: div_pos_above)
      ultimately show False using numToString_not_Nu by blast
    next
      case 3
      with D that have "numToString (d div 86400000) @ js '' dag''
           @ (if d div 86400000 > 1 then js ''en'' else js '''') = js ''Nu''" by simp
      moreover have "0 < d div 86400000" using 3 by (simp add: div_pos_above)
      ultimately show False using numToString_not_Nu by blast
    qed
  qed
  from A B C D E show ?thesis unfolding d_def by blast
qed

theorem dueText_cases_witness:
  "(60999::int) - 1000 < 60000 \<and> getNextReviewText 1000 60999 = js ''Nu''
   \<and> (60000::int) \<le> 330000 - 0 \<and> (330000::int) - 0 < 3600000
   \<and> getNextReviewText 0 330000 = js ''5 min''
   \<and> (3600000::int) \<le> 9000000 - 0 \<and> (9000000::int) - 0 < 86400000
   \<and> getNextReviewText 0 9000000 = js ''2 uur''
   \<and> (86400000::int) \<le> 86400000 - 0 \<and> getNextReviewText 0 86400000 = js ''1 dag''
   \<and> (86400000::int) \<le> 1036800000 - 0 \<and> getNextReviewText 0 1036800000 = js ''12 dagen''
   \<and> getNextReviewText 5 5 = js ''Nu'' \<and> (5::int) - 5 < 60000"
  using dueText_cases [of 60999 1000] dueText_cases [of 330000 0] dueText_cases [of 9000000 0]
    dueText_cases [of 86400000 0] dueText_cases [of 1036800000 0] dueText_cases [of 5 5]
  by (simp add: numToString_def js_def)

text \<open>
  Claim C5 as stated fails: one hour before the review is due, the difference is less than
  one day and the text is \<open>1 uur\<close>.
\<close>

theorem dueText_hour_counterexample:
  "(3600000::int) - 0 < 24 * 60 * 60 * 1000
   \<and> getNextReviewText 0 3600000 = js ''1 uur''
   \<and> getNextReviewText 0 3600000 \<noteq> js ''Nu''"
  by (simp add: getNextReviewText_def Let_def numToString_def js_def)

text \<open>
  Claim C10. At quality 4 (rating \<open>good\<close>) the ease update term
  \<open>0.1 - (5 - 4) * (0.08 + (5 - 4) * 0.02)\<close> is 0, so for an item with ease factor at least
  1.3 the returned ease factor equals the input ease factor and the floor does not apply.
\<close>

theorem good_keeps_ease:
  "0.1 - real_of_int (5 - ratingToQuality good) * (0.08 + real_of_int (5 - ratingToQuality good) * 0.02) = 0
   \<and> (1.3 \<le> easeFactor w \<longrightarrow> easeFactor (calculateNextReview w good now) = easeFactor w)"
  by (simp add: cnr_simps Let_def)

theorem good_keeps_ease_witness:
  "1.3 \<le> easeFactor (getDefaultSM2Values 0)
   \<and> easeFactor (calculateNextReview (getDefaultSM2Values 0) good 5) = easeFactor (getDefaultSM2Values 0)"
  using good_keeps_ease [of "getDefaultSM2Values 0" 5]
  by (simp add: getDefaultSM2Values_def)

section \<open>Extractor: properties\<close>

lemmas cls_defs = isSpace_def isDash_def isDigit_def isLineTerminator_def isLetter_def isNumber_def
  isBullet_def cleanAllowed_def usualChar_def isHighSurrogate_def isLowSurrogate_def cleanAllowed_alt_def

lemmas rx_defs = rxSplit_def rxStripPrefix_def rxExec_def ordinalPrefix_def trim_def

lemma header_Woord: "isLikelyHeader eng (js ''Woord'')"
  by (simp add: js_def isLikelyHeader_def rx_defs SEPARATORS_def cls_defs)

lemma Woord_short_no_separator:
  "length (js ''Woord'') < 15 \<and> \<not> list_ex (\<lambda>sep. rxTest sep (js ''Woord'')) SEPARATORS"
  by (simp add: js_def rx_defs SEPARATORS_def cls_defs)

lemma no_header_Hond: "\<not> isLikelyHeader eng (js ''Hond - Chien'')"
  by (simp add: js_def isLikelyHeader_def rx_defs SEPARATORS_def cls_defs toLowerCase_def
      headerWords_def startsWith_def endsWith_def)

lemma parseLine_Hond:
  "parseLine eng (js ''Hond - Chien'')
     = Some \<lparr>term_p = js ''Hond'', definition_p = js ''Chien'', confidence = 1\<rparr>"
  by (simp add: js_def parseLine_def SEPARATORS_def calculateConfidence_def cleanWord_def
      rx_defs cls_defs)

lemma lines_Woord_Hond:
  "filter (\<lambda>line. length line > 0) (map trim (splitOn 10 (js ''Woord'' @ [10] @ js ''Hond - Chien'')))
     = [js ''Woord'', js ''Hond - Chien'']"
  by (simp add: js_def trim_def isSpace_def)

text \<open>
  Claim C6. On the text \<open>Woord\<close>, newline, \<open>Hond - Chien\<close> the line \<open>Woord\<close> is classified
  as a header (it is shorter than 15 and no separator matches it), and the result holds
  exactly one pair, term \<open>Hond\<close> and definition \<open>Chien\<close>, and no unparsed line: the header
  is in neither list.
\<close>

theorem extract_drops_header:
  "isLikelyHeader eng (js ''Woord'')
   \<and> length (js ''Woord'') < 15
   \<and> \<not> list_ex (\<lambda>sep. rxTest sep (js ''Woord'')) SEPARATORS
   \<and> parseWordPairs eng (js ''Woord'' @ [10] @ js ''Hond - Chien'') =
       \<lparr>rawText = js ''Woord'' @ [10] @ js ''Hond - Chien'',
        pairs = [\<lparr>term_p = js ''Hond'', definition_p = js ''Chien'', confidence = 1\<rparr>],
        parseErrors = []\<rparr>"
  unfolding parseWordPairs_def lines_Woord_Hond
  by (simp add: header_Woord Woord_short_no_separator no_header_Hond parseLine_Hond)

lemma no_header_asdf: "\<not> isLikelyHeader eng (js ''asdf1 - asdf2'')"
  by (simp add: js_def isLikelyHeader_def rx_defs SEPARATORS_def cls_defs toLowerCase_def
      headerWords_def startsWith_def endsWith_def)

lemma confidence_asdf: "calculateConfidence (js ''asdf1'') (js ''asdf2'') = 0.56"
  by (simp add: js_def calculateConfidence_def rx_defs cls_defs)

lemma parseLine_asdf:
  "parseLine eng (js ''asdf1 - asdf2'')
     = Some \<lparr>term_p = js ''asdf1'', definition_p = js ''asdf2'',
              confidence = calculateConfidence (js ''asdf1'') (js ''asdf2'')\<rparr>"
  by (simp add: js_def parseLine_def SEPARATORS_def cleanWord_def rx_defs cls_defs Let_def)

lemma lines_asdf:
  "filter (\<lambda>line. length line > 0) (map trim (splitOn 10 (js ''asdf1 - asdf2''))) = [js ''asdf1 - asdf2'']"
  by (simp add: js_def trim_def isSpace_def)

text \<open>
  Claim C7. On the text \<open>asdf1 - asdf2\<close> the result holds exactly one pair, and its
  confidence is at most 0.7: the factor 0.7 for a digit is applied, and it compounds with
  the factor 0.8 (a digit is outside the accented-Latin letter set), which gives 0.56.
\<close>

theorem extract_digits_confidence:
  "pairs (parseWordPairs eng (js ''asdf1 - asdf2''))
     = [\<lparr>term_p = js ''asdf1'', definition_p = js ''asdf2'', confidence = 1 * 0.7 * 0.8\<rparr>]
   \<and> list_all (\<lambda>p. confidence p \<le> 0.7) (pairs (parseWordPairs eng (js ''asdf1 - asdf2'')))
   \<and> parseErrors (parseWordPairs eng (js ''asdf1 - asdf2'')) = []"
  unfolding parseWordPairs_def lines_asdf
  by (simp add: no_header_asdf parseLine_asdf confidence_asdf)

lemma parseLine_alt_Woord: "parseLine_alt eng (js ''Woord'') = None"
  by (simp add: js_def parseLine_alt_def SEPARATORS_alt_def detectTableFormat_alt_def rx_defs cls_defs)

lemma lines_Woord:
  "filter (\<lambda>line. length line > 0) (map trim (splitOn 10 (js ''Woord''))) = [js ''Woord'']"
  by (simp add: js_def trim_def isSpace_def)

lemma variants_Woord:
  "parseWordPairs eng (js ''Woord'') = \<lparr>rawText = js ''Woord'', pairs = [], parseErrors = []\<rparr>"
  "parseWordPairs_alt eng (js ''Woord'') = \<lparr>rawText = js ''Woord'', pairs = [], parseErrors = [js ''Woord'']\<rparr>"
  unfolding parseWordPairs_def parseWordPairs_alt_def lines_Woord
  by (simp_all add: header_Woord parseLine_alt_Woord) (simp add: js_def)

text \<open>
  Claim C8. The two variants of the extractor diverge: the one with seven separator
  patterns and the header filter drops the line \<open>Woord\<close>, the one with six separator
  patterns and no header filter reports it as unparsed; so for some text the results
  differ in their pairs or in their unparsed lines.
\<close>

theorem variants_diverge:
  "length SEPARATORS = 7 \<and> length SEPARATORS_alt = 6
   \<and> parseErrors (parseWordPairs eng (js ''Woord'')) = []
   \<and> parseErrors (parseWordPairs_alt eng (js ''Woord'')) = [js ''Woord'']
   \<and> (\<exists>raw. (pairs (parseWordPairs eng raw), parseErrors (parseWordPairs eng raw))
             \<noteq> (pairs (parseWordPairs_alt eng raw), parseErrors (parseWordPairs_alt eng raw)))"
proof -
  have "parseErrors (parseWordPairs eng (js ''Woord'')) \<noteq> parseErrors (parseWordPairs_alt eng (js ''Woord''))"
    by (simp add: variants_Woord)
  then have "\<exists>raw. (pairs (parseWordPairs eng raw), parseErrors (parseWordPairs eng raw))
             \<noteq> (pairs (parseWordPairs_alt eng raw), parseErrors (parseWordPairs_alt eng raw))"
    by blast
  then show ?thesis
    by (simp add: variants_Woord SEPARATORS_def SEPARATORS_alt_def)
qed

lemma rxSearch_found: "(rxSearch r s q \<noteq> None) = rxTest r s"
  by (induction s arbitrary: q) (auto split: option.splits)

lemma regExpTest_stateless:
  assumes "\<not> global R" and "\<not> sticky R"
  shows "regExpTest R s = (rxTest (source R) s, R)"
proof (cases "rxSearch (source R) s 0")
  case None
  then have "\<not> rxTest (source R) s" using rxSearch_found [of "source R" s 0] by simp
  with None assms show ?thesis by (simp add: regExpTest_def regExpExec_def)
next
  case (Some e)
  then have "rxTest (source R) s" using rxSearch_found [of "source R" s 0] by simp
  with Some assms show ?thesis by (simp add: regExpTest_def regExpExec_def)
qed

lemma someTest_stateless:
  "stateless seps \<Longrightarrow> someTest seps s = (list_ex (\<lambda>sep. rxTest sep s) (map source seps), seps)"
  by (induction seps) (auto simp: stateless_def regExpTest_stateless split: bool.splits)

lemma isLikelyHeader_st_stateless:
  assumes "stateless seps" and "map source seps = SEPARATORS"
  shows "isLikelyHeader_st eng seps line = (isLikelyHeader eng line, seps)"
  using assms
  by (simp add: isLikelyHeader_st_def isLikelyHeader_def someTest_stateless Let_def)

lemma parseLine_st_sources:
  "map source seps = SEPARATORS \<Longrightarrow> parseLine_st eng seps line = parseLine eng line"
  by (simp add: parseLine_st_def parseLine_def)

lemma parseLoop_st_stateless:
  assumes "stateless seps" and "map source seps = SEPARATORS"
  shows "parseLoop_st eng lines ps es seps = (parseLoop eng lines ps es, seps)"
  using assms
  by (induction lines arbitrary: ps es)
     (simp_all add: isLikelyHeader_st_stateless parseLine_st_sources split: option.splits)

lemma parseWordPairs_st_stateless:
  assumes "stateless seps" and "map source seps = SEPARATORS"
  shows "parseWordPairs_st eng raw seps = (parseWordPairs eng raw, seps)"
proof -
  obtain ps es where pe:
    "parseLoop eng (filter (\<lambda>line. length line > 0) (map trim (splitOn 10 raw))) [] [] = (ps, es)"
    by (cases "parseLoop eng (filter (\<lambda>line. length line > 0) (map trim (splitOn 10 raw))) [] []")
  show ?thesis
    unfolding parseWordPairs_st_def parseWordPairs_def parseLoop_st_stateless [OF assms] Let_def pe
    by simp
qed

lemma SEPARATORS_objects_stateless:
  "stateless SEPARATORS_objects" "map source SEPARATORS_objects = SEPARATORS"
  by (simp_all add: SEPARATORS_objects_def stateless_def list_all_iff comp_def)

lemma afterRuns_objects: "afterRuns eng texts SEPARATORS_objects = SEPARATORS_objects"
  by (induction texts rule: rev_induct)
     (simp_all add: afterRuns_def parseWordPairs_st_stateless SEPARATORS_objects_stateless)

text \<open>
  Claim C9. The extraction is deterministic. The only state that outlives a call is the
  \<open>lastIndex\<close> of the shared \<open>SEPARATORS\<close> objects, and they have neither the \<open>g\<close> nor the
  \<open>y\<close> flag: whatever texts were extracted before, the result for a text is the result from
  the freshly loaded module, and two consecutive runs on the same text yield the same
  result, with the same pairs (order and confidences included) and the same unparsed
  lines.
\<close>

theorem extract_deterministic:
  "fst (parseWordPairs_st eng raw (afterRuns eng texts SEPARATORS_objects))
     = fst (parseWordPairs_st eng raw SEPARATORS_objects)
   \<and> (case parseWordPairs_st eng raw SEPARATORS_objects of
        (r1, seps1) \<Rightarrow>
          (case parseWordPairs_st eng raw seps1 of
             (r2, seps2) \<Rightarrow> r1 = r2 \<and> pairs r1 = pairs r2 \<and> parseErrors r1 = parseErrors r2))"
  by (simp add: afterRuns_objects parseWordPairs_st_stateless SEPARATORS_objects_stateless)

text \<open>
  The statement depends on the flags. With the \<open>g\<close> flag on the separators the text
  \<open>a: b\<close> gives one pair at the first run and none at the second: the colon pattern then
  starts its test behind the colon, the line counts as a short line without separator and
  is dropped as a header.
\<close>

lemma lines_a_b:
  "filter (\<lambda>line. length line > 0) (map trim (splitOn 10 (js ''a: b''))) = [js ''a: b'']"
  by (simp add: js_def trim_def isSpace_def)

lemma gSeps_first_run:
  "parseWordPairs_st eng (js ''a: b'') gSeps =
     (\<lparr>rawText = js ''a: b'',
       pairs = [\<lparr>term_p = js ''a'', definition_p = js ''b'', confidence = 0.5\<rparr>],
       parseErrors = []\<rparr>,
      gSeps [3 := (gSeps ! 3) \<lparr>lastIndex := 3\<rparr>])"
  unfolding parseWordPairs_st_def lines_a_b
  by (simp add: js_def gSeps_def SEPARATORS_def isLikelyHeader_st_def parseLine_st_def
      regExpTest_def regExpExec_def calculateConfidence_def cleanWord_def toLowerCase_def
      headerWords_def startsWith_def endsWith_def rx_defs cls_defs Let_def)

lemma gSeps_second_run:
  "fst (parseWordPairs_st eng (js ''a: b'') (gSeps [3 := (gSeps ! 3) \<lparr>lastIndex := 3\<rparr>])) =
     \<lparr>rawText = js ''a: b'', pairs = [], parseErrors = []\<rparr>"
  unfolding parseWordPairs_st_def lines_a_b
  by (simp add: js_def gSeps_def SEPARATORS_def isLikelyHeader_st_def parseLine_st_def
      regExpTest_def regExpExec_def calculateConfidence_def cleanWord_def toLowerCase_def
      headerWords_def startsWith_def endsWith_def rx_defs cls_defs Let_def)

lemma global_flag_runs_differ:
  "fst (parseWordPairs_st eng (js ''a: b'') gSeps)
     \<noteq> fst (parseWordPairs_st eng (js ''a: b'') (snd (parseWordPairs_st eng (js ''a: b'') gSeps)))"
  by (simp add: gSeps_first_run gSeps_second_run)

end
